theory Spec2Isabelle
  imports Main "HOL-Library.Word"
begin

section \<open>The engine objects the two libraries work on\<close>

text \<open>
  The repository holds two static function libraries,
  \<^verbatim>\<open>UPoseSearchPythonExtensionsLibrary\<close> (PoseSearchPythonExtensionsLibrary.cpp) and
  \<^verbatim>\<open>UAAANKPoseBlueprintLibrary\<close> (AAANKPoseBlueprintLibrary.cpp). Both call into the
  engine's object model, whose sources are not part of the repository. The engine's
  objects are modelled by the fields the libraries read and write, and every engine
  call and every log line of a library call is recorded, in program order, in a list of
  effects.
\<close>

text \<open>The verbosity levels the libraries pass to \<^verbatim>\<open>UE_LOG\<close>.\<close>

datatype ELogVerbosity = Error | Warning | Log

text \<open>\<^verbatim>\<open>UAnimSequence\<close> and \<^verbatim>\<open>UPoseSearchSchema\<close>: only \<^verbatim>\<open>GetName()\<close> is used.\<close>

record UAnimSequence =
  AnimSequence_Name :: string

record UPoseSearchSchema =
  Schema_Name :: string

text \<open>
  \<^verbatim>\<open>FPoseSearchDatabaseAnimationAsset\<close>, the entry handed to \<^verbatim>\<open>AddAnimationAsset\<close>.
  Its declaration belongs to the engine. One library stores the animation in the member
  \<^verbatim>\<open>Sequence\<close>, the other in the member \<^verbatim>\<open>AnimAsset\<close>; the record has both, and a
  default-constructed entry holds null in each.
\<close>

record FPoseSearchDatabaseAnimationAsset =
  Sequence :: "UAnimSequence option"
  AnimAsset :: "UAnimSequence option"

definition FPoseSearchDatabaseAnimationAsset_default :: FPoseSearchDatabaseAnimationAsset where
  "FPoseSearchDatabaseAnimationAsset_default = \<lparr>Sequence = None, AnimAsset = None\<rparr>"

text \<open>
  Reflection data: a property has a name and is an array property or some other kind
  (\<^verbatim>\<open>CastField<FArrayProperty>\<close> yields null on the latter).
\<close>

datatype FFieldClass = ArrayPropertyClass | OtherPropertyClass

record FProperty =
  Property_Name :: string
  Property_Class :: FFieldClass

text \<open>
  \<^verbatim>\<open>UPoseSearchDatabase\<close>: its name, the name of its outermost package, the reflected
  properties of its class, the list of animation assets and the schema pointer
  (\<open>None\<close> is the null pointer).
\<close>

record UPoseSearchDatabase =
  Name :: string
  Outermost_Name :: string
  Class_Properties :: "FProperty list"
  AnimationAssets :: "FPoseSearchDatabaseAnimationAsset list"
  Schema :: "UPoseSearchSchema option"

text \<open>Object flags and save flags, as sets of the flag names combined with \<^verbatim>\<open>|\<close>.\<close>

datatype EObjectFlags = RF_Public | RF_Standalone

datatype ESaveFlags = SAVE_NoError

record FSavePackageArgs =
  TopLevelFlags :: "EObjectFlags set"
  SaveFlags :: "ESaveFlags set"

definition FSavePackageArgs_default :: FSavePackageArgs where
  "FSavePackageArgs_default = \<lparr>TopLevelFlags = {}, SaveFlags = {}\<rparr>"

text \<open>\<^verbatim>\<open>FPropertyChangedEvent\<close> carries the changed property, or null.\<close>

datatype FPropertyChangedEvent = FPropertyChangedEvent "FProperty option"

text \<open>
  What a call of a library function does that can be observed from outside: the log
  lines it writes, the progress dialog it drives and the engine methods it calls.
  \<open>Call_SavePackage\<close> records the package name, the file name and the save arguments.
\<close>

datatype Effect =
    LogLine ELogVerbosity string
  | SlowTask_MakeDialog string
  | SlowTask_EnterProgressFrame
  | Call_Modify
  | Call_AddAnimationAsset FPoseSearchDatabaseAnimationAsset
  | Call_MarkPackageDirty
  | Call_PostEditChangeProperty FPropertyChangedEvent
  | Call_EmptyValues
  | Call_SavePackage string string FSavePackageArgs

text \<open>
  The parts of the engine whose answer the libraries only pass on: the package file
  name computation and the package save routine with its boolean result.
\<close>

record Engine =
  LongPackageNameToFilename :: "string \<Rightarrow> string \<Rightarrow> string"
  GetAssetPackageExtension :: string
  SavePackage_result :: "string \<Rightarrow> UPoseSearchDatabase \<Rightarrow> string \<Rightarrow> FSavePackageArgs \<Rightarrow> bool"

section \<open>Formatting\<close>

text \<open>
  \<^verbatim>\<open>FString::Printf\<close> and the format of \<^verbatim>\<open>UE_LOG\<close>, for the two directives the
  libraries use: \<^verbatim>\<open>%s\<close> takes a string, \<^verbatim>\<open>%d\<close> an \<^verbatim>\<open>int32\<close> printed in decimal. A
  directive whose argument is missing or of the other kind is copied as it is (the
  engine rejects such calls at compile time; none occurs below).
\<close>

type_synonym int32 = "32 word"

fun string_of_nat :: "nat \<Rightarrow> string" where
  "string_of_nat n =
     (if n < 10 then [''0123456789'' ! n]
      else string_of_nat (n div 10) @ [''0123456789'' ! (n mod 10)])"

declare string_of_nat.simps [simp del]

definition string_of_int :: "int \<Rightarrow> string" where
  "string_of_int i =
     (if i < 0 then CHR ''-'' # string_of_nat (nat (- i)) else string_of_nat (nat i))"

datatype FormatArg = ArgS string | ArgD int32

fun Printf :: "string \<Rightarrow> FormatArg list \<Rightarrow> string" where
  "Printf [] args = []"
| "Printf [c] args = [c]"
| "Printf (c # d # fmt) args =
     (if c = CHR ''%'' \<and> d = CHR ''s'' then
        (case args of
           ArgS s # rest \<Rightarrow> s @ Printf fmt rest
         | _ \<Rightarrow> c # d # Printf fmt args)
      else if c = CHR ''%'' \<and> d = CHR ''d'' then
        (case args of
           ArgD n # rest \<Rightarrow> string_of_int (sint n) @ Printf fmt rest
         | _ \<Rightarrow> c # d # Printf fmt args)
      else c # Printf (d # fmt) args)"

section \<open>The engine methods called on a database\<close>

text \<open>
  A call in progress carries the database object behind the handle and the effects so
  far. Each engine method appends its own record to the effects. On the modelled fields,
  \<^verbatim>\<open>AddAnimationAsset\<close> appends the entry to the animation assets,
  \<^verbatim>\<open>FScriptArrayHelper::EmptyValues\<close> on the \<^verbatim>\<open>AnimationAssets\<close> array empties it, and
  \<^verbatim>\<open>GetNumAnimationAssets\<close> returns the number of entries as an \<^verbatim>\<open>int32\<close>;
  \<^verbatim>\<open>Modify\<close>, \<^verbatim>\<open>MarkPackageDirty\<close>, \<^verbatim>\<open>PostEditChangeProperty\<close> and \<^verbatim>\<open>SavePackage\<close>
  change engine state outside these fields and are visible in the effects only.
\<close>

type_synonym Call = "UPoseSearchDatabase \<times> Effect list"

definition UE_LOG :: "ELogVerbosity \<Rightarrow> string \<Rightarrow> 'a \<times> Effect list \<Rightarrow> 'a \<times> Effect list" where
  "UE_LOG Verbosity Message s = (fst s, snd s @ [LogLine Verbosity Message])"

definition MakeDialog :: "string \<Rightarrow> 'a \<times> Effect list \<Rightarrow> 'a \<times> Effect list" where
  "MakeDialog Text s = (fst s, snd s @ [SlowTask_MakeDialog Text])"

definition EnterProgressFrame :: "'a \<times> Effect list \<Rightarrow> 'a \<times> Effect list" where
  "EnterProgressFrame s = (fst s, snd s @ [SlowTask_EnterProgressFrame])"

definition Modify :: "Call \<Rightarrow> Call" where
  "Modify s = (fst s, snd s @ [Call_Modify])"

definition AddAnimationAsset :: "FPoseSearchDatabaseAnimationAsset \<Rightarrow> Call \<Rightarrow> Call" where
  "AddAnimationAsset Asset s =
     ((fst s)\<lparr>AnimationAssets := AnimationAssets (fst s) @ [Asset]\<rparr>,
      snd s @ [Call_AddAnimationAsset Asset])"

definition MarkPackageDirty :: "Call \<Rightarrow> Call" where
  "MarkPackageDirty s = (fst s, snd s @ [Call_MarkPackageDirty])"

definition PostEditChangeProperty :: "FPropertyChangedEvent \<Rightarrow> Call \<Rightarrow> Call" where
  "PostEditChangeProperty PropertyEvent s =
     (fst s, snd s @ [Call_PostEditChangeProperty PropertyEvent])"

definition EmptyValues :: "Call \<Rightarrow> Call" where
  "EmptyValues s = ((fst s)\<lparr>AnimationAssets := []\<rparr>, snd s @ [Call_EmptyValues])"

definition SavePackage ::
  "Engine \<Rightarrow> string \<Rightarrow> string \<Rightarrow> FSavePackageArgs \<Rightarrow> Call \<Rightarrow> bool \<times> Call" where
  "SavePackage engine Package Filename SaveArgs s =
     (SavePackage_result engine Package (fst s) Filename SaveArgs,
      (fst s, snd s @ [Call_SavePackage Package Filename SaveArgs]))"

definition GetNumAnimationAssets :: "UPoseSearchDatabase \<Rightarrow> int32" where
  "GetNumAnimationAssets db = of_nat (length (AnimationAssets db))"

text \<open>
  \<^verbatim>\<open>UClass::FindPropertyByName\<close> returns the first reflected property of that name, or
  null. Names are compared as strings here; the theorems on \<^verbatim>\<open>ClearDatabase\<close> depend on
  the answer of the lookup only.
\<close>

definition FindPropertyByName :: "FProperty list \<Rightarrow> string \<Rightarrow> FProperty option" where
  "FindPropertyByName props PropertyName = find (\<lambda>p. Property_Name p = PropertyName) props"

definition CastField_FArrayProperty :: "FProperty \<Rightarrow> FProperty option" where
  "CastField_FArrayProperty p =
     (if Property_Class p = ArrayPropertyClass then Some p else None)"

text \<open>\<^verbatim>\<open>TArray::Num()\<close> is an \<^verbatim>\<open>int32\<close>.\<close>

definition Num :: "'a list \<Rightarrow> int32" where
  "Num xs = of_nat (length xs)"

section \<open>\<^verbatim>\<open>UPoseSearchPythonExtensionsLibrary\<close>\<close>

text \<open>
  Every function takes the database handle (\<open>None\<close> is the null pointer, \<open>Some db\<close> a
  pointer to an object in state \<open>db\<close>) and returns its C++ result, the object behind the
  handle after the call, and the effects of the call in order.
\<close>

type_synonym 'r Outcome = "'r \<times> UPoseSearchDatabase option \<times> Effect list"

definition PSPE_AddAnimationToDatabase ::
  "UPoseSearchDatabase option \<Rightarrow> UAnimSequence option \<Rightarrow> bool Outcome" where
  "PSPE_AddAnimationToDatabase Database AnimSequence =
     (case Database of
        None \<Rightarrow>
          (False, Database,
           snd (UE_LOG Error ''AddAnimationToDatabase: Invalid database or animation'' ((), [])))
      | Some db \<Rightarrow>
          (case AnimSequence of
             None \<Rightarrow>
               (False, Database,
                snd (UE_LOG Error ''AddAnimationToDatabase: Invalid database or animation'' ((), [])))
           | Some anim \<Rightarrow>
               (let s = UE_LOG Log
                          (Printf (''Adding animation '%s' to database '%s'' @ [CHR 0x27])
                             [ArgS (AnimSequence_Name anim), ArgS (Name db)])
                          (db, []);
                    s = Modify s;
                    AnimAsset = FPoseSearchDatabaseAnimationAsset_default\<lparr>Sequence := Some anim\<rparr>;
                    s = AddAnimationAsset AnimAsset s;
                    s = MarkPackageDirty s;
                    PropertyEvent = FPropertyChangedEvent None;
                    s = PostEditChangeProperty PropertyEvent s;
                    s = UE_LOG Log ''Successfully added animation to database'' s
                in (True, Some (fst s), snd s))))"

text \<open>
  The range-based \<^verbatim>\<open>for\<close> of \<^verbatim>\<open>AddAnimationsToDatabase\<close>: \<open>n\<close> is
  \<^verbatim>\<open>AnimSequences.Num()\<close>, the accumulator is \<^verbatim>\<open>AddedCount\<close> with the call in
  progress.
\<close>

fun PSPE_AddAnimationsToDatabase_loop ::
  "int32 \<Rightarrow> UAnimSequence option list \<Rightarrow> int32 \<times> Call \<Rightarrow> int32 \<times> Call" where
  "PSPE_AddAnimationsToDatabase_loop n [] (AddedCount, s) = (AddedCount, s)"
| "PSPE_AddAnimationsToDatabase_loop n (Anim # AnimSequences) (AddedCount, s) =
     (let s = EnterProgressFrame s in
      case Anim of
        None \<Rightarrow> PSPE_AddAnimationsToDatabase_loop n AnimSequences (AddedCount, s)
      | Some anim \<Rightarrow>
          (let AnimAsset = FPoseSearchDatabaseAnimationAsset_default\<lparr>Sequence := Some anim\<rparr>;
               s = AddAnimationAsset AnimAsset s;
               AddedCount = AddedCount + 1;
               s = UE_LOG Log
                     (Printf ''Added animation %d/%d: %s''
                        [ArgD AddedCount, ArgD n, ArgS (AnimSequence_Name anim)])
                     s
           in PSPE_AddAnimationsToDatabase_loop n AnimSequences (AddedCount, s)))"

definition PSPE_AddAnimationsToDatabase ::
  "UPoseSearchDatabase option \<Rightarrow> UAnimSequence option list \<Rightarrow> int32 Outcome" where
  "PSPE_AddAnimationsToDatabase Database AnimSequences =
     (case Database of
        None \<Rightarrow>
          (0, Database, snd (UE_LOG Error ''AddAnimationsToDatabase: Invalid database'' ((), [])))
      | Some db \<Rightarrow>
          (let s = MakeDialog ''Adding animations to database'' (db, []);
               AddedCount = 0;
               s = Modify s;
               (AddedCount, s) =
                  PSPE_AddAnimationsToDatabase_loop (Num AnimSequences) AnimSequences (AddedCount, s);
               s = MarkPackageDirty s;
               PropertyEvent = FPropertyChangedEvent None;
               s = PostEditChangeProperty PropertyEvent s;
               s = UE_LOG Log
                     (Printf (''Added %d/%d animations to database '%s'' @ [CHR 0x27])
                        [ArgD AddedCount, ArgD (Num AnimSequences), ArgS (Name (fst s))])
                     s
           in (AddedCount, Some (fst s), snd s)))"

definition PSPE_BuildDatabase ::
  "Engine \<Rightarrow> UPoseSearchDatabase option \<Rightarrow> bool Outcome" where
  "PSPE_BuildDatabase engine Database =
     (case Database of
        None \<Rightarrow> (False, Database, snd (UE_LOG Error ''BuildDatabase: Invalid database'' ((), [])))
      | Some db \<Rightarrow>
          (let s = UE_LOG Log
                     (Printf (''Building database '%s'' @ [CHR 0x27]) [ArgS (Name db)])
                     (db, []);
               s = MakeDialog ''Building PoseSearch database'' s;
               s = Modify s;
               PropertyEvent = FPropertyChangedEvent None;
               s = PostEditChangeProperty PropertyEvent s;
               s = MarkPackageDirty s;
               PackageName = Outermost_Name (fst s);
               PackageFileName =
                 LongPackageNameToFilename engine PackageName (GetAssetPackageExtension engine);
               SaveArgs = FSavePackageArgs_default;
               SaveArgs = SaveArgs\<lparr>TopLevelFlags := {RF_Public} \<union> {RF_Standalone}\<rparr>;
               SaveArgs = SaveArgs\<lparr>SaveFlags := {SAVE_NoError}\<rparr>;
               (bSaved, s) = SavePackage engine (Outermost_Name (fst s)) PackageFileName SaveArgs s
           in if bSaved then
                (let s = UE_LOG Log ''Database built and saved successfully'' s
                 in (True, Some (fst s), snd s))
              else
                (let s = UE_LOG Warning ''Database built but save failed'' s
                 in (False, Some (fst s), snd s))))"

definition PSPE_GetAnimationCount :: "UPoseSearchDatabase option \<Rightarrow> int32 Outcome" where
  "PSPE_GetAnimationCount Database =
     (case Database of
        None \<Rightarrow> (0, Database, [])
      | Some db \<Rightarrow> (GetNumAnimationAssets db, Database, []))"

definition PSPE_ClearDatabase :: "UPoseSearchDatabase option \<Rightarrow> bool Outcome" where
  "PSPE_ClearDatabase Database =
     (case Database of
        None \<Rightarrow> (False, Database, snd (UE_LOG Error ''ClearDatabase: Invalid database'' ((), [])))
      | Some db \<Rightarrow>
          (let s = UE_LOG Log
                     (Printf (''Clearing database '%s'' @ [CHR 0x27]) [ArgS (Name db)])
                     (db, []);
               s = Modify s;
               AnimationAssetsPropertyName = ''AnimationAssets'';
               AnimAssetsProperty =
                 FindPropertyByName (Class_Properties (fst s)) AnimationAssetsPropertyName
           in case AnimAssetsProperty of
                None \<Rightarrow>
                  (let s = UE_LOG Error ''Could not find AnimationAssets property'' s
                   in (False, Some (fst s), snd s))
              | Some p \<Rightarrow>
                  (case CastField_FArrayProperty p of
                     None \<Rightarrow> (False, Some (fst s), snd s)
                   | Some ArrayProperty \<Rightarrow>
                       (let s = EmptyValues s;
                            s = MarkPackageDirty s;
                            PropertyEvent = FPropertyChangedEvent AnimAssetsProperty;
                            s = PostEditChangeProperty PropertyEvent s;
                            s = UE_LOG Log ''Database cleared successfully'' s
                        in (True, Some (fst s), snd s)))))"

definition PSPE_GetDatabaseInfo :: "UPoseSearchDatabase option \<Rightarrow> string Outcome" where
  "PSPE_GetDatabaseInfo Database =
     (case Database of
        None \<Rightarrow> (''Invalid database'', Database, [])
      | Some db \<Rightarrow>
          (let AnimCount = GetNumAnimationAssets db;
               Schema = Schema db;
               SchemaName = (case Schema of Some sch \<Rightarrow> Schema_Name sch | None \<Rightarrow> ''None'')
           in (Printf ''Database: %s\<newline>Animations: %d\<newline>Schema: %s''
                 [ArgS (Name db), ArgD AnimCount, ArgS SchemaName],
               Database, [])))"

section \<open>\<^verbatim>\<open>UAAANKPoseBlueprintLibrary\<close>\<close>

text \<open>
  The second library guards the editing code with \<^verbatim>\<open>#if WITH_EDITOR\<close>. The macro is
  fixed when the module is compiled; it is the first parameter of the guarded functions,
  so that both builds are covered. The animation is stored in the member
  \<^verbatim>\<open>AnimAsset\<close> of the entry.
\<close>

definition HelloWorld :: string where
  "HelloWorld = ''Hello World''"

definition AAANK_GetHelloWorld :: string where
  "AAANK_GetHelloWorld = HelloWorld"

definition AAANK_AddAnimationToDatabase ::
  "bool \<Rightarrow> UPoseSearchDatabase option \<Rightarrow> UAnimSequence option \<Rightarrow> bool Outcome" where
  "AAANK_AddAnimationToDatabase WITH_EDITOR Database AnimSequence =
     (case Database of
        None \<Rightarrow>
          (False, Database,
           snd (UE_LOG Error ''AddAnimationToDatabase: Invalid database or animation'' ((), [])))
      | Some db \<Rightarrow>
          (case AnimSequence of
             None \<Rightarrow>
               (False, Database,
                snd (UE_LOG Error ''AddAnimationToDatabase: Invalid database or animation'' ((), [])))
           | Some anim \<Rightarrow>
               (let s = UE_LOG Log
                          (Printf (''Adding animation '%s' to database '%s'' @ [CHR 0x27])
                             [ArgS (AnimSequence_Name anim), ArgS (Name db)])
                          (db, [])
                in if WITH_EDITOR then
                     (let s = Modify s;
                          AnimAsset = FPoseSearchDatabaseAnimationAsset_default\<lparr>AnimAsset := Some anim\<rparr>;
                          s = AddAnimationAsset AnimAsset s;
                          s = MarkPackageDirty s;
                          PropertyEvent = FPropertyChangedEvent None;
                          s = PostEditChangeProperty PropertyEvent s;
                          s = UE_LOG Log ''Successfully added animation to database'' s
                      in (True, Some (fst s), snd s))
                   else
                     (let s = UE_LOG Warning
                                ''AddAnimationToDatabase is only available in editor builds'' s
                      in (False, Some (fst s), snd s)))))"

fun AAANK_AddAnimationsToDatabase_loop ::
  "int32 \<Rightarrow> UAnimSequence option list \<Rightarrow> int32 \<times> Call \<Rightarrow> int32 \<times> Call" where
  "AAANK_AddAnimationsToDatabase_loop n [] (AddedCount, s) = (AddedCount, s)"
| "AAANK_AddAnimationsToDatabase_loop n (Anim # AnimSequences) (AddedCount, s) =
     (let s = EnterProgressFrame s in
      case Anim of
        None \<Rightarrow> AAANK_AddAnimationsToDatabase_loop n AnimSequences (AddedCount, s)
      | Some anim \<Rightarrow>
          (let AnimAsset = FPoseSearchDatabaseAnimationAsset_default\<lparr>AnimAsset := Some anim\<rparr>;
               s = AddAnimationAsset AnimAsset s;
               AddedCount = AddedCount + 1;
               s = UE_LOG Log
                     (Printf ''Added animation %d/%d: %s''
                        [ArgD AddedCount, ArgD n, ArgS (AnimSequence_Name anim)])
                     s
           in AAANK_AddAnimationsToDatabase_loop n AnimSequences (AddedCount, s)))"

definition AAANK_AddAnimationsToDatabase ::
  "bool \<Rightarrow> UPoseSearchDatabase option \<Rightarrow> UAnimSequence option list \<Rightarrow> int32 Outcome" where
  "AAANK_AddAnimationsToDatabase WITH_EDITOR Database AnimSequences =
     (case Database of
        None \<Rightarrow>
          (0, Database, snd (UE_LOG Error ''AddAnimationsToDatabase: Invalid database'' ((), [])))
      | Some db \<Rightarrow>
          if WITH_EDITOR then
            (let s = MakeDialog ''Adding animations to database'' (db, []);
                 AddedCount = 0;
                 s = Modify s;
                 (AddedCount, s) =
                    AAANK_AddAnimationsToDatabase_loop (Num AnimSequences) AnimSequences (AddedCount, s);
                 s = MarkPackageDirty s;
                 PropertyEvent = FPropertyChangedEvent None;
                 s = PostEditChangeProperty PropertyEvent s;
                 s = UE_LOG Log
                       (Printf (''Added %d/%d animations to database '%s'' @ [CHR 0x27])
                          [ArgD AddedCount, ArgD (Num AnimSequences), ArgS (Name (fst s))])
                       s
             in (AddedCount, Some (fst s), snd s))
          else
            (let s = UE_LOG Warning
                       ''AddAnimationsToDatabase is only available in editor builds'' (db, [])
             in (0, Some (fst s), snd s)))"

definition AAANK_BuildDatabase :: "bool \<Rightarrow> UPoseSearchDatabase option \<Rightarrow> bool Outcome" where
  "AAANK_BuildDatabase WITH_EDITOR Database =
     (case Database of
        None \<Rightarrow> (False, Database, snd (UE_LOG Error ''BuildDatabase: Invalid database'' ((), [])))
      | Some db \<Rightarrow>
          if WITH_EDITOR then
            (let s = UE_LOG Log
                       (Printf (''Building database '%s'' @ [CHR 0x27]) [ArgS (Name db)])
                       (db, []);
                 s = MakeDialog ''Building PoseSearch database'' s;
                 s = Modify s;
                 PropertyEvent = FPropertyChangedEvent None;
                 s = PostEditChangeProperty PropertyEvent s;
                 s = MarkPackageDirty s;
                 s = UE_LOG Log ''Database rebuilt successfully'' s
             in (True, Some (fst s), snd s))
          else
            (let s = UE_LOG Warning ''BuildDatabase is only available in editor builds'' (db, [])
             in (False, Some (fst s), snd s)))"

definition AAANK_GetAnimationCount :: "UPoseSearchDatabase option \<Rightarrow> int32 Outcome" where
  "AAANK_GetAnimationCount Database =
     (case Database of
        None \<Rightarrow> (0, Database, [])
      | Some db \<Rightarrow> (GetNumAnimationAssets db, Database, []))"

definition AAANK_ClearDatabase :: "bool \<Rightarrow> UPoseSearchDatabase option \<Rightarrow> bool Outcome" where
  "AAANK_ClearDatabase WITH_EDITOR Database =
     (case Database of
        None \<Rightarrow> (False, Database, snd (UE_LOG Error ''ClearDatabase: Invalid database'' ((), [])))
      | Some db \<Rightarrow>
          if WITH_EDITOR then
            (let s = UE_LOG Log
                       (Printf (''Clearing database '%s'' @ [CHR 0x27]) [ArgS (Name db)])
                       (db, []);
                 s = Modify s;
                 AnimationAssetsPropertyName = ''AnimationAssets'';
                 AnimAssetsProperty =
                   FindPropertyByName (Class_Properties (fst s)) AnimationAssetsPropertyName
             in case AnimAssetsProperty of
                  None \<Rightarrow>
                    (let s = UE_LOG Error ''Could not find AnimationAssets property'' s
                     in (False, Some (fst s), snd s))
                | Some p \<Rightarrow>
                    (case CastField_FArrayProperty p of
                       None \<Rightarrow> (False, Some (fst s), snd s)
                     | Some ArrayProperty \<Rightarrow>
                         (let s = EmptyValues s;
                              s = MarkPackageDirty s;
                              PropertyEvent = FPropertyChangedEvent AnimAssetsProperty;
                              s = PostEditChangeProperty PropertyEvent s;
                              s = UE_LOG Log ''Database cleared successfully'' s
                          in (True, Some (fst s), snd s))))
          else
            (let s = UE_LOG Warning ''ClearDatabase is only available in editor builds'' (db, [])
             in (False, Some (fst s), snd s)))"

definition AAANK_GetDatabaseInfo :: "UPoseSearchDatabase option \<Rightarrow> string Outcome" where
  "AAANK_GetDatabaseInfo Database =
     (case Database of
        None \<Rightarrow> (''Invalid database'', Database, [])
      | Some db \<Rightarrow>
          (let AnimCount = GetNumAnimationAssets db;
               Schema = Schema db;
               SchemaName = (case Schema of Some sch \<Rightarrow> Schema_Name sch | None \<Rightarrow> ''None'')
           in (Printf ''Database: %s\<newline>Animations: %d\<newline>Schema: %s''
                 [ArgS (Name db), ArgD AnimCount, ArgS SchemaName],
               Database, [])))"

section \<open>Reading the outcome of a call\<close>

definition Result :: "'r Outcome \<Rightarrow> 'r" where
  "Result out = fst out"

definition Object :: "'r Outcome \<Rightarrow> UPoseSearchDatabase option" where
  "Object out = fst (snd out)"

definition Effects :: "'r Outcome \<Rightarrow> Effect list" where
  "Effects out = snd (snd out)"

text \<open>The log lines among the effects, and the engine methods called on the database.\<close>

fun is_LogLine :: "Effect \<Rightarrow> bool" where
  "is_LogLine (LogLine v m) = True"
| "is_LogLine e = False"

definition log_lines :: "Effect list \<Rightarrow> Effect list" where
  "log_lines es = filter is_LogLine es"

fun is_engine_call :: "Effect \<Rightarrow> bool" where
  "is_engine_call (LogLine v m) = False"
| "is_engine_call (SlowTask_MakeDialog t) = False"
| "is_engine_call SlowTask_EnterProgressFrame = False"
| "is_engine_call e = True"

definition engine_calls :: "Effect list \<Rightarrow> Effect list" where
  "engine_calls es = filter is_engine_call es"

fun is_SavePackage :: "Effect \<Rightarrow> bool" where
  "is_SavePackage (Call_SavePackage p f a) = True"
| "is_SavePackage e = False"

text \<open>
  The non-null entries of an array of animation pointers, in order, and the entry each
  library builds for an animation.
\<close>

fun valid_entries :: "'a option list \<Rightarrow> 'a list" where
  "valid_entries [] = []"
| "valid_entries (None # xs) = valid_entries xs"
| "valid_entries (Some a # xs) = a # valid_entries xs"

definition Sequence_entry :: "UAnimSequence \<Rightarrow> FPoseSearchDatabaseAnimationAsset" where
  "Sequence_entry a = \<lparr>Sequence = Some a, AnimAsset = None\<rparr>"

definition AnimAsset_entry :: "UAnimSequence \<Rightarrow> FPoseSearchDatabaseAnimationAsset" where
  "AnimAsset_entry a = \<lparr>Sequence = None, AnimAsset = Some a\<rparr>"

text \<open>
  The effects of the loop of \<^verbatim>\<open>AddAnimationsToDatabase\<close>, written out per array entry:
  \<open>mk\<close> builds the entry, \<open>n\<close> is the array length and \<open>c\<close> the count so far.
\<close>

fun loop_effects ::
  "(UAnimSequence \<Rightarrow> FPoseSearchDatabaseAnimationAsset) \<Rightarrow> int32 \<Rightarrow> int32 \<Rightarrow>
   UAnimSequence option list \<Rightarrow> Effect list" where
  "loop_effects mk n c [] = []"
| "loop_effects mk n c (None # xs) = SlowTask_EnterProgressFrame # loop_effects mk n c xs"
| "loop_effects mk n c (Some a # xs) =
     SlowTask_EnterProgressFrame # Call_AddAnimationAsset (mk a) #
     LogLine Log (Printf ''Added animation %d/%d: %s'' [ArgD (c + 1), ArgD n, ArgS (AnimSequence_Name a)]) #
     loop_effects mk n (c + 1) xs"

text \<open>
  Replacing, in a recorded call of \<^verbatim>\<open>AddAnimationAsset\<close>, the member that holds the
  animation by the other one.
\<close>

fun swap_members :: "Effect \<Rightarrow> Effect" where
  "swap_members (Call_AddAnimationAsset e) =
     Call_AddAnimationAsset \<lparr>Sequence = AnimAsset e, AnimAsset = Sequence e\<rparr>"
| "swap_members e = e"

text \<open>
  \<^verbatim>\<open>AddAnimationToDatabase\<close> called once per animation on the same handle: the results
  of the calls and the database behind the handle after the last one.
\<close>

fun PSPE_add_each ::
  "UPoseSearchDatabase option \<Rightarrow> UAnimSequence option list \<Rightarrow> bool list \<times> UPoseSearchDatabase option" where
  "PSPE_add_each Database [] = ([], Database)"
| "PSPE_add_each Database (Anim # Anims) =
     (let out = PSPE_AddAnimationToDatabase Database Anim;
          rest = PSPE_add_each (Object out) Anims
      in (Result out # fst rest, snd rest))"

fun AAANK_add_each ::
  "bool \<Rightarrow> UPoseSearchDatabase option \<Rightarrow> UAnimSequence option list \<Rightarrow>
   bool list \<times> UPoseSearchDatabase option" where
  "AAANK_add_each WITH_EDITOR Database [] = ([], Database)"
| "AAANK_add_each WITH_EDITOR Database (Anim # Anims) =
     (let out = AAANK_AddAnimationToDatabase WITH_EDITOR Database Anim;
          rest = AAANK_add_each WITH_EDITOR (Object out) Anims
      in (Result out # fst rest, snd rest))"

text \<open>Concrete objects on which the theorems below are instantiated.\<close>

definition walk :: UAnimSequence where
  "walk = \<lparr>AnimSequence_Name = ''Walk''\<rparr>"

definition run :: UAnimSequence where
  "run = \<lparr>AnimSequence_Name = ''Run''\<rparr>"

definition example_database :: UPoseSearchDatabase where
  "example_database =
     \<lparr>Name = ''PSD_Locomotion'', Outermost_Name = ''/Game/PSD_Locomotion'',
      Class_Properties = [\<lparr>Property_Name = ''AnimationAssets'', Property_Class = ArrayPropertyClass\<rparr>],
      AnimationAssets = [], Schema = None\<rparr>"

definition failing_engine :: Engine where
  "failing_engine =
     \<lparr>LongPackageNameToFilename = (\<lambda>p e. p @ e), GetAssetPackageExtension = ''.uasset'',
      SavePackage_result = (\<lambda>p d f a. False)\<rparr>"

definition database_without_property :: UPoseSearchDatabase where
  "database_without_property = example_database\<lparr>Class_Properties := []\<rparr>"

definition database_with_other_property :: UPoseSearchDatabase where
  "database_with_other_property =
     example_database\<lparr>Class_Properties :=
       [\<lparr>Property_Name = ''AnimationAssets'', Property_Class = OtherPropertyClass\<rparr>]\<rparr>"

text \<open>
  The arguments of the save call of \<^verbatim>\<open>BuildDatabase\<close> and the answer of the engine's
  save routine to them.
\<close>

definition BuildDatabase_SaveArgs :: FSavePackageArgs where
  "BuildDatabase_SaveArgs = \<lparr>TopLevelFlags = {RF_Public, RF_Standalone}, SaveFlags = {SAVE_NoError}\<rparr>"

definition BuildDatabase_PackageFileName :: "Engine \<Rightarrow> UPoseSearchDatabase \<Rightarrow> string" where
  "BuildDatabase_PackageFileName engine db =
     LongPackageNameToFilename engine (Outermost_Name db) (GetAssetPackageExtension engine)"

definition BuildDatabase_bSaved :: "Engine \<Rightarrow> UPoseSearchDatabase \<Rightarrow> bool" where
  "BuildDatabase_bSaved engine db =
     SavePackage_result engine (Outermost_Name db) db
       (BuildDatabase_PackageFileName engine db) BuildDatabase_SaveArgs"

section \<open>The calls written out\<close>

lemma length_valid_entries: "length (valid_entries xs) = length (filter (\<lambda>a. a \<noteq> None) xs)"
  by (induction xs rule: valid_entries.induct) simp_all

lemma sint_of_nat_int32: "n < 2 ^ 31 \<Longrightarrow> sint (of_nat n :: int32) = int n"
proof -
  assume n: "n < 2 ^ 31"
  have "(of_nat n :: int32) = word_of_int (int n)"
    by simp
  then have "sint (of_nat n :: int32) = signed_take_bit (LENGTH(32) - 1) (int n)"
    by (simp only: sint_sbintrunc')
  also have "\<dots> = int n"
    using n by (simp add: signed_take_bit_int_eq_self)
  finally show ?thesis .
qed

text \<open>The loop adds one entry per non-null animation and counts them.\<close>

lemma PSPE_loop_eq:
  "PSPE_AddAnimationsToDatabase_loop n xs (c, s) =
     (c + of_nat (length (valid_entries xs)),
      (fst s)\<lparr>AnimationAssets := AnimationAssets (fst s) @ map Sequence_entry (valid_entries xs)\<rparr>,
      snd s @ loop_effects Sequence_entry n c xs)"
proof (induction xs arbitrary: c s rule: valid_entries.induct)
  case 1
  show ?case by simp
next
  case (2 xs)
  show ?case by (simp add: "2.IH" EnterProgressFrame_def)
next
  case (3 a xs)
  show ?case
    by (simp add: "3.IH" EnterProgressFrame_def AddAnimationAsset_def UE_LOG_def Let_def
          Sequence_entry_def FPoseSearchDatabaseAnimationAsset_default_def)
qed

lemma AAANK_loop_eq:
  "AAANK_AddAnimationsToDatabase_loop n xs (c, s) =
     (c + of_nat (length (valid_entries xs)),
      (fst s)\<lparr>AnimationAssets := AnimationAssets (fst s) @ map AnimAsset_entry (valid_entries xs)\<rparr>,
      snd s @ loop_effects AnimAsset_entry n c xs)"
proof (induction xs arbitrary: c s rule: valid_entries.induct)
  case 1
  show ?case by simp
next
  case (2 xs)
  show ?case by (simp add: "2.IH" EnterProgressFrame_def)
next
  case (3 a xs)
  show ?case
    by (simp add: "3.IH" EnterProgressFrame_def AddAnimationAsset_def UE_LOG_def Let_def
          AnimAsset_entry_def FPoseSearchDatabaseAnimationAsset_default_def)
qed

lemma engine_calls_loop_effects:
  "engine_calls (loop_effects mk n c xs) = map (\<lambda>a. Call_AddAnimationAsset (mk a)) (valid_entries xs)"
  by (induction xs arbitrary: c rule: valid_entries.induct) (simp_all add: engine_calls_def)

lemma swap_members_loop_effects:
  "map swap_members (loop_effects Sequence_entry n c xs) = loop_effects AnimAsset_entry n c xs"
  by (induction xs arbitrary: c rule: valid_entries.induct)
    (simp_all add: Sequence_entry_def AnimAsset_entry_def del: Printf.simps)

text \<open>
  The complete outcome of the two ingestion functions on non-null handles; the second
  library in its editor build.
\<close>

lemma PSPE_AddAnimationToDatabase_valid:
  "PSPE_AddAnimationToDatabase (Some db) (Some a) =
     (True,
      Some (db\<lparr>AnimationAssets := AnimationAssets db @ [Sequence_entry a]\<rparr>),
      [LogLine Log (Printf (''Adding animation '%s' to database '%s'' @ [CHR 0x27])
                      [ArgS (AnimSequence_Name a), ArgS (Name db)]),
       Call_Modify,
       Call_AddAnimationAsset (Sequence_entry a),
       Call_MarkPackageDirty,
       Call_PostEditChangeProperty (FPropertyChangedEvent None),
       LogLine Log ''Successfully added animation to database''])"
  by (simp add: PSPE_AddAnimationToDatabase_def Let_def UE_LOG_def Modify_def
        AddAnimationAsset_def MarkPackageDirty_def PostEditChangeProperty_def
        Sequence_entry_def FPoseSearchDatabaseAnimationAsset_default_def del: Printf.simps)

lemma AAANK_AddAnimationToDatabase_valid:
  "AAANK_AddAnimationToDatabase True (Some db) (Some a) =
     (True,
      Some (db\<lparr>AnimationAssets := AnimationAssets db @ [AnimAsset_entry a]\<rparr>),
      [LogLine Log (Printf (''Adding animation '%s' to database '%s'' @ [CHR 0x27])
                      [ArgS (AnimSequence_Name a), ArgS (Name db)]),
       Call_Modify,
       Call_AddAnimationAsset (AnimAsset_entry a),
       Call_MarkPackageDirty,
       Call_PostEditChangeProperty (FPropertyChangedEvent None),
       LogLine Log ''Successfully added animation to database''])"
  by (simp add: AAANK_AddAnimationToDatabase_def Let_def UE_LOG_def Modify_def
        AddAnimationAsset_def MarkPackageDirty_def PostEditChangeProperty_def
        AnimAsset_entry_def FPoseSearchDatabaseAnimationAsset_default_def del: Printf.simps)

lemma PSPE_AddAnimationsToDatabase_valid:
  "PSPE_AddAnimationsToDatabase (Some db) xs =
     (of_nat (length (valid_entries xs)),
      Some (db\<lparr>AnimationAssets := AnimationAssets db @ map Sequence_entry (valid_entries xs)\<rparr>),
      [SlowTask_MakeDialog ''Adding animations to database'', Call_Modify] @
      loop_effects Sequence_entry (Num xs) 0 xs @
      [Call_MarkPackageDirty,
       Call_PostEditChangeProperty (FPropertyChangedEvent None),
       LogLine Log (Printf (''Added %d/%d animations to database '%s'' @ [CHR 0x27])
                      [ArgD (of_nat (length (valid_entries xs))), ArgD (Num xs), ArgS (Name db)])])"
  by (simp add: PSPE_AddAnimationsToDatabase_def Let_def PSPE_loop_eq UE_LOG_def Modify_def
        MakeDialog_def MarkPackageDirty_def PostEditChangeProperty_def del: Printf.simps)

lemma AAANK_AddAnimationsToDatabase_valid:
  "AAANK_AddAnimationsToDatabase True (Some db) xs =
     (of_nat (length (valid_entries xs)),
      Some (db\<lparr>AnimationAssets := AnimationAssets db @ map AnimAsset_entry (valid_entries xs)\<rparr>),
      [SlowTask_MakeDialog ''Adding animations to database'', Call_Modify] @
      loop_effects AnimAsset_entry (Num xs) 0 xs @
      [Call_MarkPackageDirty,
       Call_PostEditChangeProperty (FPropertyChangedEvent None),
       LogLine Log (Printf (''Added %d/%d animations to database '%s'' @ [CHR 0x27])
                      [ArgD (of_nat (length (valid_entries xs))), ArgD (Num xs), ArgS (Name db)])])"
  by (simp add: AAANK_AddAnimationsToDatabase_def Let_def AAANK_loop_eq UE_LOG_def Modify_def
        MakeDialog_def MarkPackageDirty_def PostEditChangeProperty_def del: Printf.simps)

lemma PSPE_add_each_valid:
  "PSPE_add_each (Some db) (map Some anims) =
     (replicate (length anims) True,
      Some (db\<lparr>AnimationAssets := AnimationAssets db @ map Sequence_entry anims\<rparr>))"
  by (induction anims arbitrary: db)
    (simp_all add: PSPE_AddAnimationToDatabase_valid Result_def Object_def Let_def del: Printf.simps)

lemma AAANK_add_each_valid:
  "AAANK_add_each True (Some db) (map Some anims) =
     (replicate (length anims) True,
      Some (db\<lparr>AnimationAssets := AnimationAssets db @ map AnimAsset_entry anims\<rparr>))"
  by (induction anims arbitrary: db)
    (simp_all add: AAANK_AddAnimationToDatabase_valid Result_def Object_def Let_def del: Printf.simps)

section \<open>Batch ingestion\<close>

text \<open>
  C1. \<^verbatim>\<open>AddAnimationsToDatabase\<close> on a non-null database and an array with \<open>N\<close>
  non-null and \<open>M\<close> null entries returns \<open>N\<close>, and the database then holds the entries
  it had, followed by one new entry per non-null animation, in the order of the array:
  null entries are skipped and nothing already added is taken back. The array length
  \<open>N + M\<close> is an \<^verbatim>\<open>int32\<close>, as \<^verbatim>\<open>TArray::Num()\<close> is. Both libraries, the second
  one in its editor build.
\<close>

theorem C1_batch_add_reports_valid_entries:
  assumes "length (filter (\<lambda>a. a \<noteq> None) AnimSequences) = N"
    and "length (filter (\<lambda>a. a = None) AnimSequences) = M"
    and "N + M < 2 ^ 31"
  shows "sint (Result (PSPE_AddAnimationsToDatabase (Some db) AnimSequences)) = int N
    \<and> Object (PSPE_AddAnimationsToDatabase (Some db) AnimSequences) =
        Some (db\<lparr>AnimationAssets :=
                    AnimationAssets db @ map Sequence_entry (valid_entries AnimSequences)\<rparr>)
    \<and> sint (Result (AAANK_AddAnimationsToDatabase True (Some db) AnimSequences)) = int N
    \<and> Object (AAANK_AddAnimationsToDatabase True (Some db) AnimSequences) =
        Some (db\<lparr>AnimationAssets :=
                    AnimationAssets db @ map AnimAsset_entry (valid_entries AnimSequences)\<rparr>)
    \<and> length (valid_entries AnimSequences) = N"
proof -
  have n: "length (valid_entries AnimSequences) = N"
    using assms(1) by (simp add: length_valid_entries)
  have "N < 2 ^ 31"
    using assms(3) by simp
  then have s: "sint (of_nat N :: int32) = int N"
    by (rule sint_of_nat_int32)
  show ?thesis
    by (simp add: PSPE_AddAnimationsToDatabase_valid AAANK_AddAnimationsToDatabase_valid
          Result_def Object_def n s del: Printf.simps)
qed

theorem C1_batch_add_witness:
  "sint (Result (PSPE_AddAnimationsToDatabase (Some example_database) [Some walk, None, Some run])) = 2
   \<and> Object (PSPE_AddAnimationsToDatabase (Some example_database) [Some walk, None, Some run]) =
        Some (example_database\<lparr>AnimationAssets := [Sequence_entry walk, Sequence_entry run]\<rparr>)
   \<and> sint (Result (AAANK_AddAnimationsToDatabase True (Some example_database) [Some walk, None, Some run])) = 2
   \<and> Object (AAANK_AddAnimationsToDatabase True (Some example_database) [Some walk, None, Some run]) =
        Some (example_database\<lparr>AnimationAssets := [AnimAsset_entry walk, AnimAsset_entry run]\<rparr>)"
  using C1_batch_add_reports_valid_entries
          [of "[Some walk, None, Some run]" 2 1 example_database]
  by (simp add: example_database_def)

section \<open>Counting\<close>

text \<open>
  C5. On a non-null database, after \<open>K\<close> successful calls of
  \<^verbatim>\<open>AddAnimationToDatabase\<close> with non-null animations (each returns true), or after one
  call of \<^verbatim>\<open>AddAnimationsToDatabase\<close> with \<open>K\<close> non-null entries,
  \<^verbatim>\<open>GetAnimationCount\<close> returns the count before plus \<open>K\<close>. The database can hold
  the entries: their number is an \<^verbatim>\<open>int32\<close>. Both libraries, the second one in its
  editor build.
\<close>

theorem C5_count_after_adding:
  assumes "length anims = K"
    and "length (valid_entries AnimSequences) = K"
    and "length (AnimationAssets db) + K < 2 ^ 31"
  shows "fst (PSPE_add_each (Some db) (map Some anims)) = replicate K True
    \<and> sint (Result (PSPE_GetAnimationCount (snd (PSPE_add_each (Some db) (map Some anims))))) =
        sint (Result (PSPE_GetAnimationCount (Some db))) + int K
    \<and> sint (Result (PSPE_GetAnimationCount (Object (PSPE_AddAnimationsToDatabase (Some db) AnimSequences)))) =
        sint (Result (PSPE_GetAnimationCount (Some db))) + int K
    \<and> fst (AAANK_add_each True (Some db) (map Some anims)) = replicate K True
    \<and> sint (Result (AAANK_GetAnimationCount (snd (AAANK_add_each True (Some db) (map Some anims))))) =
        sint (Result (AAANK_GetAnimationCount (Some db))) + int K
    \<and> sint (Result (AAANK_GetAnimationCount
               (Object (AAANK_AddAnimationsToDatabase True (Some db) AnimSequences)))) =
        sint (Result (AAANK_GetAnimationCount (Some db))) + int K"
proof -
  have before: "sint (of_nat (length (AnimationAssets db)) :: int32) = int (length (AnimationAssets db))"
    using assms(3) by (intro sint_of_nat_int32) simp
  have after: "sint (of_nat (length (AnimationAssets db) + K) :: int32) = int (length (AnimationAssets db) + K)"
    using assms(3) by (rule sint_of_nat_int32)
  show ?thesis
    using before after assms(1,2)
    by (simp add: PSPE_add_each_valid AAANK_add_each_valid PSPE_AddAnimationsToDatabase_valid
          AAANK_AddAnimationsToDatabase_valid PSPE_GetAnimationCount_def
          AAANK_GetAnimationCount_def GetNumAnimationAssets_def Result_def Object_def
          del: Printf.simps)
qed

theorem C5_count_after_adding_witness:
  "sint (Result (PSPE_GetAnimationCount (snd (PSPE_add_each (Some example_database) [Some walk, Some run])))) = 2
   \<and> sint (Result (PSPE_GetAnimationCount
              (Object (PSPE_AddAnimationsToDatabase (Some example_database) [Some walk, None, Some run])))) = 2
   \<and> sint (Result (AAANK_GetAnimationCount
              (snd (AAANK_add_each True (Some example_database) [Some walk, Some run])))) = 2
   \<and> sint (Result (AAANK_GetAnimationCount
              (Object (AAANK_AddAnimationsToDatabase True (Some example_database) [Some walk, None, Some run])))) = 2"
  using C5_count_after_adding [of "[walk, run]" 2 "[Some walk, None, Some run]" example_database]
  by (simp add: example_database_def PSPE_GetAnimationCount_def AAANK_GetAnimationCount_def
        GetNumAnimationAssets_def Result_def)

section \<open>Null handles\<close>

text \<open>
  C4, as stated, asks every operation to log the failure on a null handle.
  \<^verbatim>\<open>GetAnimationCount\<close> and \<^verbatim>\<open>GetDatabaseInfo\<close> return their sentinel without
  writing a log line.
\<close>

theorem C4_null_handle_counterexample:
  "\<not> (log_lines (Effects (PSPE_GetAnimationCount None)) \<noteq> [])
   \<and> \<not> (log_lines (Effects (AAANK_GetAnimationCount None)) \<noteq> [])
   \<and> \<not> (log_lines (Effects (PSPE_GetDatabaseInfo None)) \<noteq> [])
   \<and> \<not> (log_lines (Effects (AAANK_GetDatabaseInfo None)) \<noteq> [])"
  by (simp add: PSPE_GetAnimationCount_def AAANK_GetAnimationCount_def PSPE_GetDatabaseInfo_def
        AAANK_GetDatabaseInfo_def Effects_def log_lines_def)

text \<open>
  C4, amended. On a null database handle (for \<^verbatim>\<open>AddAnimationToDatabase\<close> also on a
  null animation handle) every operation of both libraries returns its failure sentinel
  and calls no engine method, so the database is unchanged: \<^verbatim>\<open>AddAnimationToDatabase\<close>,
  \<^verbatim>\<open>BuildDatabase\<close> and \<^verbatim>\<open>ClearDatabase\<close> return false and
  \<^verbatim>\<open>AddAnimationsToDatabase\<close> returns 0, each after one error log line;
  \<^verbatim>\<open>GetAnimationCount\<close> returns 0 and \<^verbatim>\<open>GetDatabaseInfo\<close> returns
  \<^verbatim>\<open>Invalid database\<close>, both without logging. The second library does so in either
  build.
\<close>

theorem C4_null_handle_sentinels:
  "PSPE_AddAnimationToDatabase None AnimSequence =
     (False, None, [LogLine Error ''AddAnimationToDatabase: Invalid database or animation''])
   \<and> PSPE_AddAnimationToDatabase (Some db) None =
     (False, Some db, [LogLine Error ''AddAnimationToDatabase: Invalid database or animation''])
   \<and> PSPE_AddAnimationsToDatabase None AnimSequences =
     (0, None, [LogLine Error ''AddAnimationsToDatabase: Invalid database''])
   \<and> PSPE_BuildDatabase engine None =
     (False, None, [LogLine Error ''BuildDatabase: Invalid database''])
   \<and> PSPE_ClearDatabase None =
     (False, None, [LogLine Error ''ClearDatabase: Invalid database''])
   \<and> PSPE_GetAnimationCount None = (0, None, [])
   \<and> PSPE_GetDatabaseInfo None = (''Invalid database'', None, [])
   \<and> AAANK_AddAnimationToDatabase WITH_EDITOR None AnimSequence =
     (False, None, [LogLine Error ''AddAnimationToDatabase: Invalid database or animation''])
   \<and> AAANK_AddAnimationToDatabase WITH_EDITOR (Some db) None =
     (False, Some db, [LogLine Error ''AddAnimationToDatabase: Invalid database or animation''])
   \<and> AAANK_AddAnimationsToDatabase WITH_EDITOR None AnimSequences =
     (0, None, [LogLine Error ''AddAnimationsToDatabase: Invalid database''])
   \<and> AAANK_BuildDatabase WITH_EDITOR None =
     (False, None, [LogLine Error ''BuildDatabase: Invalid database''])
   \<and> AAANK_ClearDatabase WITH_EDITOR None =
     (False, None, [LogLine Error ''ClearDatabase: Invalid database''])
   \<and> AAANK_GetAnimationCount None = (0, None, [])
   \<and> AAANK_GetDatabaseInfo None = (''Invalid database'', None, [])"
  by (simp add: PSPE_AddAnimationToDatabase_def PSPE_AddAnimationsToDatabase_def
        PSPE_BuildDatabase_def PSPE_ClearDatabase_def PSPE_GetAnimationCount_def
        PSPE_GetDatabaseInfo_def AAANK_AddAnimationToDatabase_def
        AAANK_AddAnimationsToDatabase_def AAANK_BuildDatabase_def AAANK_ClearDatabase_def
        AAANK_GetAnimationCount_def AAANK_GetDatabaseInfo_def UE_LOG_def)

section \<open>The summary string\<close>

text \<open>
  C9. On a non-null database \<^verbatim>\<open>GetDatabaseInfo\<close> returns the database name, the
  animation count in decimal and the schema name (\<^verbatim>\<open>None\<close> for a null schema), on
  three lines: \<^verbatim>\<open>Database: <name>\<close>, \<^verbatim>\<open>Animations: <count>\<close>, \<^verbatim>\<open>Schema: <schema>\<close>.
  The database is unchanged and there is no effect at all: no \<^verbatim>\<open>Modify\<close>, no
  dirty-marking, no notification.
\<close>

theorem C9_database_info_format:
  "PSPE_GetDatabaseInfo (Some db) =
     (''Database: '' @ Name db @ ''\<newline>Animations: ''
        @ string_of_int (sint (Result (PSPE_GetAnimationCount (Some db))))
        @ ''\<newline>Schema: ''
        @ (case Schema db of None \<Rightarrow> ''None'' | Some sch \<Rightarrow> Schema_Name sch),
      Some db, [])
   \<and> AAANK_GetDatabaseInfo (Some db) =
     (''Database: '' @ Name db @ ''\<newline>Animations: ''
        @ string_of_int (sint (Result (AAANK_GetAnimationCount (Some db))))
        @ ''\<newline>Schema: ''
        @ (case Schema db of None \<Rightarrow> ''None'' | Some sch \<Rightarrow> Schema_Name sch),
      Some db, [])"
  by (simp add: PSPE_GetDatabaseInfo_def AAANK_GetDatabaseInfo_def PSPE_GetAnimationCount_def
        AAANK_GetAnimationCount_def Result_def Let_def split: option.split)

text \<open>The string for a database named \<^verbatim>\<open>PSD_Locomotion\<close> with two entries and no schema.\<close>

lemma GetDatabaseInfo_example:
  "Result (PSPE_GetDatabaseInfo
     (Some (example_database\<lparr>AnimationAssets := [Sequence_entry walk, Sequence_entry run]\<rparr>))) =
   ''Database: PSD_Locomotion\<newline>Animations: 2\<newline>Schema: None''"
  by (simp add: PSPE_GetDatabaseInfo_def example_database_def GetNumAnimationAssets_def
        Result_def Let_def string_of_int_def string_of_nat.simps)

section \<open>Clearing\<close>

text \<open>
  \<^verbatim>\<open>ClearDatabase\<close> on a non-null database, by the outcome of the reflection lookup;
  the second library in its editor build runs the same statements.
\<close>

lemma PSPE_ClearDatabase_cases:
  "PSPE_ClearDatabase (Some db) =
     (case FindPropertyByName (Class_Properties db) ''AnimationAssets'' of
        None \<Rightarrow>
          (False, Some db,
           [LogLine Log (Printf (''Clearing database '%s'' @ [CHR 0x27]) [ArgS (Name db)]),
            Call_Modify,
            LogLine Error ''Could not find AnimationAssets property''])
      | Some p \<Rightarrow>
          if Property_Class p = ArrayPropertyClass then
            (True, Some (db\<lparr>AnimationAssets := []\<rparr>),
             [LogLine Log (Printf (''Clearing database '%s'' @ [CHR 0x27]) [ArgS (Name db)]),
              Call_Modify,
              Call_EmptyValues,
              Call_MarkPackageDirty,
              Call_PostEditChangeProperty (FPropertyChangedEvent (Some p)),
              LogLine Log ''Database cleared successfully''])
          else
            (False, Some db,
             [LogLine Log (Printf (''Clearing database '%s'' @ [CHR 0x27]) [ArgS (Name db)]),
              Call_Modify]))"
  by (simp add: PSPE_ClearDatabase_def Let_def UE_LOG_def Modify_def EmptyValues_def
        MarkPackageDirty_def PostEditChangeProperty_def CastField_FArrayProperty_def
        split: option.split del: Printf.simps)

lemma AAANK_ClearDatabase_editor:
  "AAANK_ClearDatabase True Database = PSPE_ClearDatabase Database"
  by (simp add: AAANK_ClearDatabase_def PSPE_ClearDatabase_def split: option.split del: Printf.simps)

text \<open>
  C7. On a non-null database whose class has no property named \<^verbatim>\<open>AnimationAssets\<close>,
  \<^verbatim>\<open>ClearDatabase\<close> logs the error \<^verbatim>\<open>Could not find AnimationAssets property\<close> and
  returns false; the database, and so its list of animation assets, is as before
  (\<^verbatim>\<open>Modify\<close> is the only engine method called). Both libraries, the second one in
  its editor build.
\<close>

theorem C7_clear_property_not_found:
  assumes "FindPropertyByName (Class_Properties db) ''AnimationAssets'' = None"
  shows "PSPE_ClearDatabase (Some db) =
           (False, Some db,
            [LogLine Log (Printf (''Clearing database '%s'' @ [CHR 0x27]) [ArgS (Name db)]),
             Call_Modify,
             LogLine Error ''Could not find AnimationAssets property''])
    \<and> AAANK_ClearDatabase True (Some db) = PSPE_ClearDatabase (Some db)"
  using assms by (simp add: PSPE_ClearDatabase_cases AAANK_ClearDatabase_editor del: Printf.simps)

theorem C7_clear_property_not_found_witness:
  "Result (PSPE_ClearDatabase (Some database_without_property)) = False
   \<and> Object (PSPE_ClearDatabase (Some database_without_property)) = Some database_without_property
   \<and> log_lines (Effects (PSPE_ClearDatabase (Some database_without_property))) =
       [LogLine Log (''Clearing database 'PSD_Locomotion'' @ [CHR 0x27]),
        LogLine Error ''Could not find AnimationAssets property'']
   \<and> Result (AAANK_ClearDatabase True (Some database_without_property)) = False"
  using C7_clear_property_not_found [of database_without_property]
  by (simp add: database_without_property_def example_database_def FindPropertyByName_def
        Result_def Object_def Effects_def log_lines_def)

text \<open>
  C6, as stated, promises true for every database with an empty list. On a database
  whose class has no property named \<^verbatim>\<open>AnimationAssets\<close> the lookup guard returns false.
\<close>

theorem C6_clear_empty_counterexample:
  "AnimationAssets database_without_property = []
   \<and> \<not> Result (PSPE_ClearDatabase (Some database_without_property))"
  by (simp add: PSPE_ClearDatabase_cases database_without_property_def example_database_def
        FindPropertyByName_def Result_def del: Printf.simps)

text \<open>
  C6, amended. On a non-null database whose list of animation assets is already empty,
  \<^verbatim>\<open>ClearDatabase\<close> returns true exactly when the class of the database has a property
  named \<^verbatim>\<open>AnimationAssets\<close> that is an array property, and \<^verbatim>\<open>GetAnimationCount\<close>
  returns zero afterwards in every case. Both libraries, the second one in its editor
  build.
\<close>

theorem C6_clear_empty:
  assumes "AnimationAssets db = []"
  shows "Result (PSPE_ClearDatabase (Some db)) =
           (case FindPropertyByName (Class_Properties db) ''AnimationAssets'' of
              None \<Rightarrow> False
            | Some p \<Rightarrow> Property_Class p = ArrayPropertyClass)
    \<and> sint (Result (PSPE_GetAnimationCount (Object (PSPE_ClearDatabase (Some db))))) = 0
    \<and> Result (AAANK_ClearDatabase True (Some db)) =
           (case FindPropertyByName (Class_Properties db) ''AnimationAssets'' of
              None \<Rightarrow> False
            | Some p \<Rightarrow> Property_Class p = ArrayPropertyClass)
    \<and> sint (Result (AAANK_GetAnimationCount (Object (AAANK_ClearDatabase True (Some db))))) = 0"
  using assms
  by (simp add: PSPE_ClearDatabase_cases AAANK_ClearDatabase_editor PSPE_GetAnimationCount_def
        AAANK_GetAnimationCount_def GetNumAnimationAssets_def Result_def Object_def
        split: option.split del: Printf.simps)

theorem C6_clear_empty_witness:
  "Result (PSPE_ClearDatabase (Some example_database))
   \<and> sint (Result (PSPE_GetAnimationCount (Object (PSPE_ClearDatabase (Some example_database))))) = 0
   \<and> Result (AAANK_ClearDatabase True (Some example_database))
   \<and> sint (Result (AAANK_GetAnimationCount
              (Object (AAANK_ClearDatabase True (Some example_database))))) = 0"
  using C6_clear_empty [of example_database]
  by (simp add: example_database_def FindPropertyByName_def)

text \<open>
  C10, as stated, has \<^verbatim>\<open>ClearDatabase\<close> return without writing any log line when the
  property is found but is no array property. The line \<^verbatim>\<open>Clearing database '...'\<close> is
  written before the lookup.
\<close>

theorem C10_clear_not_an_array_counterexample:
  "FindPropertyByName (Class_Properties database_with_other_property) ''AnimationAssets'' =
     Some \<lparr>Property_Name = ''AnimationAssets'', Property_Class = OtherPropertyClass\<rparr>
   \<and> \<not> (log_lines (Effects (PSPE_ClearDatabase (Some database_with_other_property))) = [])
   \<and> \<not> (log_lines (Effects (AAANK_ClearDatabase True (Some database_with_other_property))) = [])"
  by (simp add: PSPE_ClearDatabase_cases AAANK_ClearDatabase_editor
        database_with_other_property_def example_database_def FindPropertyByName_def
        Effects_def log_lines_def del: Printf.simps)

text \<open>
  C10, amended. On a non-null database whose property \<^verbatim>\<open>AnimationAssets\<close> is found but
  is no array property, \<^verbatim>\<open>ClearDatabase\<close> returns false and writes no log line about
  the failure: its effects are the informational line \<^verbatim>\<open>Clearing database '...'\<close> and the
  call of \<^verbatim>\<open>Modify\<close>, and nothing else, so the list is not emptied, the package is
  not marked dirty and no notification is sent. Both libraries, the second one in its
  editor build.
\<close>

theorem C10_clear_not_an_array:
  assumes "FindPropertyByName (Class_Properties db) ''AnimationAssets'' = Some p"
    and "Property_Class p \<noteq> ArrayPropertyClass"
  shows "PSPE_ClearDatabase (Some db) =
           (False, Some db,
            [LogLine Log (Printf (''Clearing database '%s'' @ [CHR 0x27]) [ArgS (Name db)]),
             Call_Modify])
    \<and> AAANK_ClearDatabase True (Some db) = PSPE_ClearDatabase (Some db)"
  using assms by (simp add: PSPE_ClearDatabase_cases AAANK_ClearDatabase_editor del: Printf.simps)

theorem C10_clear_not_an_array_witness:
  "PSPE_ClearDatabase (Some database_with_other_property) =
     (False, Some database_with_other_property,
      [LogLine Log (''Clearing database 'PSD_Locomotion'' @ [CHR 0x27]), Call_Modify])
   \<and> AAANK_ClearDatabase True (Some database_with_other_property) =
     (False, Some database_with_other_property,
      [LogLine Log (''Clearing database 'PSD_Locomotion'' @ [CHR 0x27]), Call_Modify])"
  using C10_clear_not_an_array
          [of database_with_other_property
              "\<lparr>Property_Name = ''AnimationAssets'', Property_Class = OtherPropertyClass\<rparr>"]
  by (simp add: database_with_other_property_def example_database_def FindPropertyByName_def)

section \<open>Building and saving\<close>

text \<open>
  The complete outcome of \<^verbatim>\<open>BuildDatabase\<close> on a non-null database, in each library.
\<close>

lemma PSPE_BuildDatabase_valid:
  "PSPE_BuildDatabase engine (Some db) =
     (BuildDatabase_bSaved engine db, Some db,
      [LogLine Log (Printf (''Building database '%s'' @ [CHR 0x27]) [ArgS (Name db)]),
       SlowTask_MakeDialog ''Building PoseSearch database'',
       Call_Modify,
       Call_PostEditChangeProperty (FPropertyChangedEvent None),
       Call_MarkPackageDirty,
       Call_SavePackage (Outermost_Name db) (BuildDatabase_PackageFileName engine db)
         BuildDatabase_SaveArgs,
       if BuildDatabase_bSaved engine db
       then LogLine Log ''Database built and saved successfully''
       else LogLine Warning ''Database built but save failed''])"
  by (simp add: PSPE_BuildDatabase_def Let_def UE_LOG_def MakeDialog_def Modify_def
        PostEditChangeProperty_def MarkPackageDirty_def SavePackage_def
        FSavePackageArgs_default_def BuildDatabase_SaveArgs_def
        BuildDatabase_PackageFileName_def BuildDatabase_bSaved_def insert_commute
        del: Printf.simps)

lemma AAANK_BuildDatabase_valid:
  "AAANK_BuildDatabase True (Some db) =
     (True, Some db,
      [LogLine Log (Printf (''Building database '%s'' @ [CHR 0x27]) [ArgS (Name db)]),
       SlowTask_MakeDialog ''Building PoseSearch database'',
       Call_Modify,
       Call_PostEditChangeProperty (FPropertyChangedEvent None),
       Call_MarkPackageDirty,
       LogLine Log ''Database rebuilt successfully''])"
  by (simp add: AAANK_BuildDatabase_def Let_def UE_LOG_def MakeDialog_def Modify_def
        PostEditChangeProperty_def MarkPackageDirty_def del: Printf.simps)

text \<open>
  C3, as stated, covers \<^verbatim>\<open>BuildDatabase\<close> of both libraries. The one of
  \<^verbatim>\<open>UAAANKPoseBlueprintLibrary\<close> never calls the save routine and returns true whatever
  that routine would answer.
\<close>

theorem C3_build_save_counterexample:
  "\<not> (filter is_SavePackage (Effects (AAANK_BuildDatabase True (Some example_database))) \<noteq> [])
   \<and> \<not> (Result (AAANK_BuildDatabase True (Some example_database)) =
          BuildDatabase_bSaved failing_engine example_database)"
  by (simp add: AAANK_BuildDatabase_valid Effects_def Result_def BuildDatabase_bSaved_def
        failing_engine_def del: Printf.simps)

text \<open>
  C3, amended. On a non-null database, \<^verbatim>\<open>BuildDatabase\<close> of
  \<^verbatim>\<open>UPoseSearchPythonExtensionsLibrary\<close> calls \<^verbatim>\<open>Modify\<close>, sends the property-changed
  notification, marks the package dirty and then calls the save routine with the flags
  \<^verbatim>\<open>RF_Public | RF_Standalone\<close> and \<^verbatim>\<open>SAVE_NoError\<close>; its result is the result of that
  routine. When the routine reports failure it logs the warning
  \<^verbatim>\<open>Database built but save failed\<close> and returns false, the notification having been
  sent. \<^verbatim>\<open>BuildDatabase\<close> of \<^verbatim>\<open>UAAANKPoseBlueprintLibrary\<close> does not save.
\<close>

theorem C3_build_then_save:
  "Result (PSPE_BuildDatabase engine (Some db)) =
     SavePackage_result engine (Outermost_Name db) db
       (LongPackageNameToFilename engine (Outermost_Name db) (GetAssetPackageExtension engine))
       \<lparr>TopLevelFlags = {RF_Public, RF_Standalone}, SaveFlags = {SAVE_NoError}\<rparr>
   \<and> engine_calls (Effects (PSPE_BuildDatabase engine (Some db))) =
       [Call_Modify,
        Call_PostEditChangeProperty (FPropertyChangedEvent None),
        Call_MarkPackageDirty,
        Call_SavePackage (Outermost_Name db)
          (LongPackageNameToFilename engine (Outermost_Name db) (GetAssetPackageExtension engine))
          \<lparr>TopLevelFlags = {RF_Public, RF_Standalone}, SaveFlags = {SAVE_NoError}\<rparr>]
   \<and> log_lines (Effects (PSPE_BuildDatabase engine (Some db))) =
       [LogLine Log (Printf (''Building database '%s'' @ [CHR 0x27]) [ArgS (Name db)]),
        if Result (PSPE_BuildDatabase engine (Some db))
        then LogLine Log ''Database built and saved successfully''
        else LogLine Warning ''Database built but save failed'']
   \<and> Object (PSPE_BuildDatabase engine (Some db)) = Some db"
  by (simp add: PSPE_BuildDatabase_valid Effects_def Result_def Object_def engine_calls_def
        log_lines_def BuildDatabase_bSaved_def BuildDatabase_PackageFileName_def
        BuildDatabase_SaveArgs_def del: Printf.simps)

theorem C3_build_then_save_witness:
  "Result (PSPE_BuildDatabase failing_engine (Some example_database)) = False
   \<and> engine_calls (Effects (PSPE_BuildDatabase failing_engine (Some example_database))) =
       [Call_Modify,
        Call_PostEditChangeProperty (FPropertyChangedEvent None),
        Call_MarkPackageDirty,
        Call_SavePackage ''/Game/PSD_Locomotion'' ''/Game/PSD_Locomotion.uasset''
          \<lparr>TopLevelFlags = {RF_Public, RF_Standalone}, SaveFlags = {SAVE_NoError}\<rparr>]
   \<and> log_lines (Effects (PSPE_BuildDatabase failing_engine (Some example_database))) =
       [LogLine Log (''Building database 'PSD_Locomotion'' @ [CHR 0x27]),
        LogLine Warning ''Database built but save failed'']"
  using C3_build_then_save [of failing_engine example_database]
  by (simp add: failing_engine_def example_database_def)

section \<open>The order of the ingestion steps\<close>

text \<open>
  C8, as stated, lists insertion, dirty-marking and notification as exactly the steps
  after validation. Both ingestion functions call \<^verbatim>\<open>Modify\<close> on the database first.
\<close>

theorem C8_ingestion_steps_counterexample:
  "\<not> (engine_calls (Effects (PSPE_AddAnimationToDatabase (Some example_database) (Some walk))) =
        [Call_AddAnimationAsset (Sequence_entry walk),
         Call_MarkPackageDirty,
         Call_PostEditChangeProperty (FPropertyChangedEvent None)])
   \<and> \<not> (engine_calls (Effects (AAANK_AddAnimationsToDatabase True (Some example_database)
                                  [Some walk, Some run])) =
        [Call_AddAnimationAsset (AnimAsset_entry walk),
         Call_AddAnimationAsset (AnimAsset_entry run),
         Call_MarkPackageDirty,
         Call_PostEditChangeProperty (FPropertyChangedEvent None)])"
  by (simp add: PSPE_AddAnimationToDatabase_valid AAANK_AddAnimationsToDatabase_valid
        Effects_def engine_calls_def del: Printf.simps)

text \<open>
  C8, amended. An ingestion function called with non-null handles calls these engine
  methods on the database, in this order and no others: \<^verbatim>\<open>Modify\<close> once,
  \<^verbatim>\<open>AddAnimationAsset\<close> once for each non-null animation in the order given,
  \<^verbatim>\<open>MarkPackageDirty\<close> once and \<^verbatim>\<open>PostEditChangeProperty\<close> once; dirty-marking and
  the notification come after the last insertion, also in the batch function. Both
  libraries, the second one in its editor build.
\<close>

theorem C8_ingestion_steps:
  "engine_calls (Effects (PSPE_AddAnimationToDatabase (Some db) (Some a))) =
     [Call_Modify,
      Call_AddAnimationAsset (Sequence_entry a),
      Call_MarkPackageDirty,
      Call_PostEditChangeProperty (FPropertyChangedEvent None)]
   \<and> engine_calls (Effects (PSPE_AddAnimationsToDatabase (Some db) AnimSequences)) =
     Call_Modify #
     map (\<lambda>a. Call_AddAnimationAsset (Sequence_entry a)) (valid_entries AnimSequences) @
     [Call_MarkPackageDirty,
      Call_PostEditChangeProperty (FPropertyChangedEvent None)]
   \<and> engine_calls (Effects (AAANK_AddAnimationToDatabase True (Some db) (Some a))) =
     [Call_Modify,
      Call_AddAnimationAsset (AnimAsset_entry a),
      Call_MarkPackageDirty,
      Call_PostEditChangeProperty (FPropertyChangedEvent None)]
   \<and> engine_calls (Effects (AAANK_AddAnimationsToDatabase True (Some db) AnimSequences)) =
     Call_Modify #
     map (\<lambda>a. Call_AddAnimationAsset (AnimAsset_entry a)) (valid_entries AnimSequences) @
     [Call_MarkPackageDirty,
      Call_PostEditChangeProperty (FPropertyChangedEvent None)]"
proof -
  have loop: "filter is_engine_call (loop_effects mk n c AnimSequences) =
      map (\<lambda>a. Call_AddAnimationAsset (mk a)) (valid_entries AnimSequences)" for mk n c
    using engine_calls_loop_effects [of mk n c AnimSequences]
    by (simp add: engine_calls_def)
  show ?thesis
    by (simp add: PSPE_AddAnimationToDatabase_valid AAANK_AddAnimationToDatabase_valid
          PSPE_AddAnimationsToDatabase_valid AAANK_AddAnimationsToDatabase_valid
          Effects_def engine_calls_def loop del: Printf.simps)
qed

section \<open>The two libraries compared\<close>

lemma AAANK_GetAnimationCount_eq: "AAANK_GetAnimationCount Database = PSPE_GetAnimationCount Database"
  by (simp add: AAANK_GetAnimationCount_def PSPE_GetAnimationCount_def)

lemma AAANK_GetDatabaseInfo_eq: "AAANK_GetDatabaseInfo Database = PSPE_GetDatabaseInfo Database"
  by (simp add: AAANK_GetDatabaseInfo_def PSPE_GetDatabaseInfo_def del: Printf.simps)

lemma AddAnimationToDatabase_null_eq:
  "AAANK_AddAnimationToDatabase WITH_EDITOR None AnimSequence =
     PSPE_AddAnimationToDatabase None AnimSequence"
  "AAANK_AddAnimationToDatabase WITH_EDITOR (Some db) None = PSPE_AddAnimationToDatabase (Some db) None"
  "AAANK_AddAnimationsToDatabase WITH_EDITOR None AnimSequences =
     PSPE_AddAnimationsToDatabase None AnimSequences"
  "AAANK_BuildDatabase WITH_EDITOR None = PSPE_BuildDatabase engine None"
  by (simp_all add: AAANK_AddAnimationToDatabase_def PSPE_AddAnimationToDatabase_def
        AAANK_AddAnimationsToDatabase_def PSPE_AddAnimationsToDatabase_def
        AAANK_BuildDatabase_def PSPE_BuildDatabase_def)

lemma AddAnimationToDatabase_swap:
  "Result (AAANK_AddAnimationToDatabase True (Some db) (Some a)) =
     Result (PSPE_AddAnimationToDatabase (Some db) (Some a))"
  "Effects (AAANK_AddAnimationToDatabase True (Some db) (Some a)) =
     map swap_members (Effects (PSPE_AddAnimationToDatabase (Some db) (Some a)))"
  by (simp_all add: AAANK_AddAnimationToDatabase_valid PSPE_AddAnimationToDatabase_valid
        Result_def Effects_def Sequence_entry_def AnimAsset_entry_def del: Printf.simps)

lemma AddAnimationsToDatabase_swap:
  "Result (AAANK_AddAnimationsToDatabase True (Some db) AnimSequences) =
     Result (PSPE_AddAnimationsToDatabase (Some db) AnimSequences)"
  "Effects (AAANK_AddAnimationsToDatabase True (Some db) AnimSequences) =
     map swap_members (Effects (PSPE_AddAnimationsToDatabase (Some db) AnimSequences))"
  by (simp_all add: AAANK_AddAnimationsToDatabase_valid PSPE_AddAnimationsToDatabase_valid
        Result_def Effects_def swap_members_loop_effects del: Printf.simps)

text \<open>The greeting function that only \<^verbatim>\<open>UAAANKPoseBlueprintLibrary\<close> has.\<close>

lemma AAANK_GetHelloWorld_eq: "AAANK_GetHelloWorld = ''Hello World''"
  by (simp add: AAANK_GetHelloWorld_def HelloWorld_def)

text \<open>
  Outside editor builds the guarded operations of \<^verbatim>\<open>UAAANKPoseBlueprintLibrary\<close> only
  log a warning and return false or 0; the theorems on this library are about its editor
  build.
\<close>

lemma AAANK_without_editor:
  "AAANK_AddAnimationToDatabase False (Some db) (Some a) =
     (False, Some db,
      [LogLine Log (Printf (''Adding animation '%s' to database '%s'' @ [CHR 0x27])
                      [ArgS (AnimSequence_Name a), ArgS (Name db)]),
       LogLine Warning ''AddAnimationToDatabase is only available in editor builds''])"
  "AAANK_AddAnimationsToDatabase False (Some db) AnimSequences =
     (0, Some db, [LogLine Warning ''AddAnimationsToDatabase is only available in editor builds''])"
  "AAANK_BuildDatabase False (Some db) =
     (False, Some db, [LogLine Warning ''BuildDatabase is only available in editor builds''])"
  "AAANK_ClearDatabase False (Some db) =
     (False, Some db, [LogLine Warning ''ClearDatabase is only available in editor builds''])"
  by (simp_all add: AAANK_AddAnimationToDatabase_def AAANK_AddAnimationsToDatabase_def
        AAANK_BuildDatabase_def AAANK_ClearDatabase_def UE_LOG_def Let_def del: Printf.simps)

text \<open>
  C2, as stated, gives every pair of corresponding operations the same result and the
  same effect. \<^verbatim>\<open>BuildDatabase\<close> differs: with a save routine that fails, one library
  returns false and the other true, and only one of them calls the save routine.
\<close>

theorem C2_libraries_differ_counterexample:
  "\<not> (Result (AAANK_BuildDatabase True (Some example_database)) =
        Result (PSPE_BuildDatabase failing_engine (Some example_database)))
   \<and> \<not> (engine_calls (Effects (AAANK_BuildDatabase True (Some example_database))) =
        engine_calls (Effects (PSPE_BuildDatabase failing_engine (Some example_database))))"
  by (simp add: AAANK_BuildDatabase_valid PSPE_BuildDatabase_valid Result_def Effects_def
        engine_calls_def BuildDatabase_bSaved_def failing_engine_def del: Printf.simps)

text \<open>
  C2, amended. In an editor build, \<^verbatim>\<open>GetAnimationCount\<close>, \<^verbatim>\<open>GetDatabaseInfo\<close> and
  \<^verbatim>\<open>ClearDatabase\<close> of the two libraries have the same outcome on every input, and so
  has every operation on a null handle. The two ingestion functions return the same
  result, write the same log lines and make the same engine calls, and add the same
  animations in the same order, except that the new entries hold the animation in the
  member \<^verbatim>\<open>Sequence\<close> in \<^verbatim>\<open>UPoseSearchPythonExtensionsLibrary\<close> and in the member
  \<^verbatim>\<open>AnimAsset\<close> in \<^verbatim>\<open>UAAANKPoseBlueprintLibrary\<close>. \<^verbatim>\<open>BuildDatabase\<close> leaves the same
  database in both, but \<^verbatim>\<open>UPoseSearchPythonExtensionsLibrary\<close> goes on to call the save
  routine and returns its result, where \<^verbatim>\<open>UAAANKPoseBlueprintLibrary\<close> returns true.
\<close>

theorem C2_libraries_compared:
  "AAANK_GetAnimationCount Database = PSPE_GetAnimationCount Database
   \<and> AAANK_GetDatabaseInfo Database = PSPE_GetDatabaseInfo Database
   \<and> AAANK_ClearDatabase True Database = PSPE_ClearDatabase Database
   \<and> AAANK_AddAnimationToDatabase True None AnimSequence =
       PSPE_AddAnimationToDatabase None AnimSequence
   \<and> AAANK_AddAnimationToDatabase True (Some db) None = PSPE_AddAnimationToDatabase (Some db) None
   \<and> Result (AAANK_AddAnimationToDatabase True (Some db) (Some a)) =
       Result (PSPE_AddAnimationToDatabase (Some db) (Some a))
   \<and> Effects (AAANK_AddAnimationToDatabase True (Some db) (Some a)) =
       map swap_members (Effects (PSPE_AddAnimationToDatabase (Some db) (Some a)))
   \<and> Object (PSPE_AddAnimationToDatabase (Some db) (Some a)) =
       Some (db\<lparr>AnimationAssets := AnimationAssets db @ [Sequence_entry a]\<rparr>)
   \<and> Object (AAANK_AddAnimationToDatabase True (Some db) (Some a)) =
       Some (db\<lparr>AnimationAssets := AnimationAssets db @ [AnimAsset_entry a]\<rparr>)
   \<and> AAANK_AddAnimationsToDatabase True None AnimSequences =
       PSPE_AddAnimationsToDatabase None AnimSequences
   \<and> Result (AAANK_AddAnimationsToDatabase True (Some db) AnimSequences) =
       Result (PSPE_AddAnimationsToDatabase (Some db) AnimSequences)
   \<and> Effects (AAANK_AddAnimationsToDatabase True (Some db) AnimSequences) =
       map swap_members (Effects (PSPE_AddAnimationsToDatabase (Some db) AnimSequences))
   \<and> Object (PSPE_AddAnimationsToDatabase (Some db) AnimSequences) =
       Some (db\<lparr>AnimationAssets :=
                   AnimationAssets db @ map Sequence_entry (valid_entries AnimSequences)\<rparr>)
   \<and> Object (AAANK_AddAnimationsToDatabase True (Some db) AnimSequences) =
       Some (db\<lparr>AnimationAssets :=
                   AnimationAssets db @ map AnimAsset_entry (valid_entries AnimSequences)\<rparr>)
   \<and> AAANK_BuildDatabase True None = PSPE_BuildDatabase engine None
   \<and> Result (AAANK_BuildDatabase True (Some db)) = True
   \<and> Result (PSPE_BuildDatabase engine (Some db)) =
       SavePackage_result engine (Outermost_Name db) db
         (LongPackageNameToFilename engine (Outermost_Name db) (GetAssetPackageExtension engine))
         \<lparr>TopLevelFlags = {RF_Public, RF_Standalone}, SaveFlags = {SAVE_NoError}\<rparr>
   \<and> Object (AAANK_BuildDatabase True (Some db)) = Object (PSPE_BuildDatabase engine (Some db))
   \<and> engine_calls (Effects (PSPE_BuildDatabase engine (Some db))) =
       engine_calls (Effects (AAANK_BuildDatabase True (Some db))) @
       [Call_SavePackage (Outermost_Name db)
          (LongPackageNameToFilename engine (Outermost_Name db) (GetAssetPackageExtension engine))
          \<lparr>TopLevelFlags = {RF_Public, RF_Standalone}, SaveFlags = {SAVE_NoError}\<rparr>]"
proof -
  have build:
    "Result (AAANK_BuildDatabase True (Some db)) = True"
    "Result (PSPE_BuildDatabase engine (Some db)) =
       SavePackage_result engine (Outermost_Name db) db
         (LongPackageNameToFilename engine (Outermost_Name db) (GetAssetPackageExtension engine))
         \<lparr>TopLevelFlags = {RF_Public, RF_Standalone}, SaveFlags = {SAVE_NoError}\<rparr>"
    "Object (AAANK_BuildDatabase True (Some db)) = Object (PSPE_BuildDatabase engine (Some db))"
    "engine_calls (Effects (PSPE_BuildDatabase engine (Some db))) =
       engine_calls (Effects (AAANK_BuildDatabase True (Some db))) @
       [Call_SavePackage (Outermost_Name db)
          (LongPackageNameToFilename engine (Outermost_Name db) (GetAssetPackageExtension engine))
          \<lparr>TopLevelFlags = {RF_Public, RF_Standalone}, SaveFlags = {SAVE_NoError}\<rparr>]"
    by (simp_all add: AAANK_BuildDatabase_valid PSPE_BuildDatabase_valid Result_def Object_def
          Effects_def engine_calls_def BuildDatabase_bSaved_def BuildDatabase_PackageFileName_def
          BuildDatabase_SaveArgs_def del: Printf.simps)
  have objects:
    "Object (PSPE_AddAnimationToDatabase (Some db) (Some a)) =
       Some (db\<lparr>AnimationAssets := AnimationAssets db @ [Sequence_entry a]\<rparr>)"
    "Object (AAANK_AddAnimationToDatabase True (Some db) (Some a)) =
       Some (db\<lparr>AnimationAssets := AnimationAssets db @ [AnimAsset_entry a]\<rparr>)"
    "Object (PSPE_AddAnimationsToDatabase (Some db) AnimSequences) =
       Some (db\<lparr>AnimationAssets :=
                   AnimationAssets db @ map Sequence_entry (valid_entries AnimSequences)\<rparr>)"
    "Object (AAANK_AddAnimationsToDatabase True (Some db) AnimSequences) =
       Some (db\<lparr>AnimationAssets :=
                   AnimationAssets db @ map AnimAsset_entry (valid_entries AnimSequences)\<rparr>)"
    by (simp_all add: AAANK_AddAnimationToDatabase_valid PSPE_AddAnimationToDatabase_valid
          AAANK_AddAnimationsToDatabase_valid PSPE_AddAnimationsToDatabase_valid Object_def
          del: Printf.simps)
  show ?thesis
    by (intro conjI AAANK_GetAnimationCount_eq AAANK_GetDatabaseInfo_eq AAANK_ClearDatabase_editor
          AddAnimationToDatabase_null_eq AddAnimationToDatabase_swap AddAnimationsToDatabase_swap
          build objects)
qed

end
